theory Spec2Isabelle
  imports Complex_Main "HOL-Library.Sublist" "HOL-Library.List_Lexorder" "HOL-Library.Char_ord"
begin

section \<open>The logging lint tool (logcheck.go)\<close>

subsection \<open>Syntax trees, diagnostics and the analysis pass\<close>

text \<open>
  The part of \<^verbatim>\<open>go/ast\<close> that \<^verbatim>\<open>checkForFormatSpecifier\<close>, \<^verbatim>\<open>hasFormatSpecifier\<close> and
  \<^verbatim>\<open>isKeysValid\<close> look at. A position is a \<^verbatim>\<open>token.Pos\<close>; the kind of a basic literal is
  one of the five literal tokens of \<^verbatim>\<open>go/token\<close> (\<^verbatim>\<open>token.STRING\<close> is \<open>token_STRING\<close>); every expression that is neither a basic
  literal, an identifier, a selector nor a call is an \<open>OtherExpr\<close> with its position.
  The \<^verbatim>\<open>Sel\<close> of a selector expression is an \<^verbatim>\<open>*ast.Ident\<close>; its two fields are the
  fields \<open>Sel_NamePos\<close> and \<open>Sel_Name\<close> of the selector (\<^verbatim>\<open>selExpr.Sel.Name\<close> is
  \<open>Sel_Name selExpr\<close>). Strings are byte strings, as Go's are.
\<close>

type_synonym Pos = nat

datatype Token = token_INT | token_FLOAT | token_IMAG | token_CHAR | token_STRING

datatype Expr =
    BasicLit (ValuePos: Pos) (Kind: Token) (Value: string)
  | Ident (NamePos: Pos) (Ident_Name: string)
  | SelectorExpr (X: Expr) (Sel_NamePos: Pos) (Sel_Name: string)
  | CallExpr (Fun: Expr) (Args: "Expr list")
  | OtherExpr Pos

text \<open>\<^verbatim>\<open>Pos()\<close> of an expression: the position of its first character.\<close>

fun Pos :: "Expr \<Rightarrow> Pos" where
  "Pos (BasicLit p k v) = p"
| "Pos (Ident p n) = p"
| "Pos (SelectorExpr x sp s) = Pos x"
| "Pos (CallExpr f as) = Pos f"
| "Pos (OtherExpr p) = p"

text \<open>
  A message is the call of \<^verbatim>\<open>fmt.Sprintf\<close> that builds it: the format string and the
  arguments, left unformatted (\<^verbatim>\<open>%v\<close> of a syntax node and \<^verbatim>\<open>%q\<close> are the formatting
  library's business).
\<close>

datatype Arg = ArgString string | ArgExpr Expr

datatype Message = Sprintf string "Arg list"

record Diagnostic =
  DPos :: Pos
  DMessage :: Message

text \<open>
  Of \<^verbatim>\<open>analysis.Pass\<close> the three functions only use \<^verbatim>\<open>Report\<close>: the pass is the list of
  the diagnostics reported so far, oldest first.
\<close>

type_synonym Pass = "Diagnostic list"

definition Report :: "Pass \<Rightarrow> Diagnostic \<Rightarrow> Pass" where
  "Report pass d = pass @ [d]"

subsection \<open>Library functions on strings\<close>

text \<open>\<^verbatim>\<open>strings.HasSuffix(s, suffix)\<close>:
  \<^verbatim>\<open>len(s) >= len(suffix) && s[len(s)-len(suffix):] == suffix\<close>.\<close>

definition HasSuffix :: "string \<Rightarrow> string \<Rightarrow> bool" where
  "HasSuffix s suff =
     (length s \<ge> length suff \<and> drop (length s - length suff) s = suff)"

text \<open>\<^verbatim>\<open>strings.Contains(s, substr)\<close>: \<open>substr\<close> starts at some index of \<open>s\<close>.\<close>

fun Contains :: "string \<Rightarrow> string \<Rightarrow> bool" where
  "Contains [] substr = (substr = [])"
| "Contains (c # cs) substr = (prefix substr (c # cs) \<or> Contains cs substr)"

text \<open>\<^verbatim>\<open>utf8string.NewString(s).IsASCII()\<close>: no byte of \<open>s\<close> reaches \<^verbatim>\<open>utf8.RuneSelf\<close>
  (0x80).\<close>

definition IsASCII :: "string \<Rightarrow> bool" where
  "IsASCII s = list_all (\<lambda>c. (of_char c :: nat) < 128) s"

subsection \<open>hasFormatSpecifier and checkForFormatSpecifier\<close>

definition formatSpecifiers :: "string list" where
  "formatSpecifiers =
     [''%v'', ''%+v'', ''%#v'', ''%T'',
      ''%t'', ''%b'', ''%c'', ''%d'', ''%o'', ''%O'', ''%q'', ''%x'', ''%X'', ''%U'',
      ''%e'', ''%E'', ''%f'', ''%F'', ''%g'', ''%G'', ''%s'', ''%q'', ''%p'']"

text \<open>The inner loop of \<^verbatim>\<open>hasFormatSpecifier\<close>: the first specifier of the list that the
  literal's text contains.\<close>

fun firstSpecifier :: "string \<Rightarrow> string list \<Rightarrow> string option" where
  "firstSpecifier v [] = None"
| "firstSpecifier v (specifier # rest) =
     (if Contains v specifier then Some specifier else firstSpecifier v rest)"

text \<open>The outer loop: arguments in order; only basic literals are looked into. The result
  is Go's pair \<^verbatim>\<open>(string, bool)\<close>.\<close>

fun hasFormatSpecifier :: "Expr list \<Rightarrow> string \<times> bool" where
  "hasFormatSpecifier [] = ('''', False)"
| "hasFormatSpecifier (BasicLit p k v # fArgs) =
     (case firstSpecifier v formatSpecifiers of
        Some specifier \<Rightarrow> (specifier, True)
      | None \<Rightarrow> hasFormatSpecifier fArgs)"
| "hasFormatSpecifier (fArg # fArgs) = hasFormatSpecifier fArgs"

text \<open>\<^verbatim>\<open>checkForFormatSpecifier(expr *ast.CallExpr, pass)\<close>: the argument is a call, given
  by its function expression and its arguments; the result is the returned flag and the
  pass after the reports.\<close>

fun checkForFormatSpecifier :: "Expr \<Rightarrow> Expr list \<Rightarrow> Pass \<Rightarrow> bool \<times> Pass" where
  "checkForFormatSpecifier (SelectorExpr x sp fName) args pass =
     (if HasSuffix fName ''f'' then (False, pass)
      else (case hasFormatSpecifier args of
              (specifier, True) \<Rightarrow>
                (True, Report pass
                   \<lparr>DPos = Pos (SelectorExpr x sp fName),
                    DMessage = Sprintf ''logging function %q should not use format specifier %q''
                                 [ArgString fName, ArgString specifier]\<rparr>)
            | (specifier, False) \<Rightarrow> (False, pass)))"
| "checkForFormatSpecifier fn args pass = (False, pass)"

subsection \<open>isKeysValid\<close>

definition msgKeyValuePairs :: "string \<Rightarrow> Message" where
  "msgKeyValuePairs funName =
     Sprintf ''Additional arguments to %s should always be Key Value pairs. Please check if there is any key or value missing.''
       [ArgString funName]"

definition msgNotInlined :: "Arg \<Rightarrow> Message" where
  "msgNotInlined a =
     Sprintf ''Key positional arguments are expected to be inlined constant strings. Please replace %v provided with string value.''
       [a]"

definition msgNotASCII :: "string \<Rightarrow> Message" where
  "msgNotASCII v =
     Sprintf ''Key positional arguments %s are expected to be lowerCamelCase alphanumeric strings. Please remove any non-Latin characters.''
       [ArgString v]"

text \<open>The body of the \<^verbatim>\<open>for index, arg := range keyValues\<close> loop for one argument at a key
  position: the three checks in the source's order, each ending the iteration.\<close>

fun checkKey :: "Expr \<Rightarrow> Pos \<Rightarrow> Pass \<Rightarrow> Pass" where
  "checkKey (BasicLit p k v) fpos pass =
     (if k \<noteq> token_STRING then
        Report pass \<lparr>DPos = fpos, DMessage = msgNotInlined (ArgString v)\<rparr>
      else if \<not> IsASCII v then
        Report pass \<lparr>DPos = fpos, DMessage = msgNotASCII v\<rparr>
      else pass)"
| "checkKey arg fpos pass =
     Report pass \<lparr>DPos = fpos, DMessage = msgNotInlined (ArgExpr arg)\<rparr>"

text \<open>The loop, with its running index.\<close>

fun keysLoop :: "nat \<Rightarrow> Expr list \<Rightarrow> Pos \<Rightarrow> Pass \<Rightarrow> Pass" where
  "keysLoop index [] fpos pass = pass"
| "keysLoop index (arg # rest) fpos pass =
     (if index mod 2 \<noteq> 0 then keysLoop (index + 1) rest fpos pass
      else keysLoop (index + 1) rest fpos (checkKey arg fpos pass))"

definition isKeysValid :: "Expr list \<Rightarrow> Expr \<Rightarrow> Pass \<Rightarrow> string \<Rightarrow> Pass" where
  "isKeysValid keyValues fn pass funName =
     (if length keyValues mod 2 \<noteq> 0 then
        Report pass \<lparr>DPos = Pos fn, DMessage = msgKeyValuePairs funName\<rparr>
      else keysLoop 0 keyValues (Pos fn) pass)"

section \<open>The node metrics resource (package api)\<close>

text \<open>
  Of package \<^verbatim>\<open>api\<close> the sources hold the test file of the node resource only: its
  fixtures (\<^verbatim>\<open>fakeNodeLister\<close>, \<^verbatim>\<open>fakeNodeMetricsGetter\<close>, \<^verbatim>\<open>NewTestNodeStorage\<close>,
  \<^verbatim>\<open>createTestNodes\<close>, \<^verbatim>\<open>nodeLabels\<close>) and what its tests assert. Those are translated
  from the source. \<^verbatim>\<open>List\<close>, \<^verbatim>\<open>Get\<close>, \<^verbatim>\<open>ConvertToTable\<close> and the freshness histogram
  are not among the sources and are modelled from the specification, each marked so.
\<close>

subsection \<open>Data\<close>

text \<open>
  \<^verbatim>\<open>labels.Set\<close> and \<^verbatim>\<open>fields.Set\<close> are \<^verbatim>\<open>map[string]string\<close>. A selector is its
  \<^verbatim>\<open>Matches\<close> predicate. An instant (\<^verbatim>\<open>time.Time\<close>) is a number of nanoseconds since the
  zero time, a \<^verbatim>\<open>time.Duration\<close> a number of nanoseconds. A \<^verbatim>\<open>resource.Quantity\<close> is
  represented by its canonical text, which its \<^verbatim>\<open>String()\<close> returns
  (\<^verbatim>\<open>resource.MustParse("10m")\<close> is \<open>''10m''\<close>); a \<^verbatim>\<open>v1.ResourceList\<close> is the list of
  the entries of the Go map, looked up with \<open>map_of\<close>.
\<close>

type_synonym Set = "string \<rightharpoonup> string"
type_synonym Selector = "Set \<Rightarrow> bool"
type_synonym Time = int
type_synonym Duration = int
type_synonym Quantity = string
type_synonym ResourceList = "(string \<times> Quantity) list"

text \<open>\<^verbatim>\<open>metav1.ObjectMeta\<close>, as far as the tests read it. A \<^verbatim>\<open>v1.Node\<close> of the registry is
  its object metadata.\<close>

record ObjectMeta =
  Name :: string
  Labels :: Set

type_synonym Node = ObjectMeta

record TimeInfo =
  Timestamp :: Time
  Window :: Duration

text \<open>
  Modelled from the spec: the NodeMetric entry of section 3,
  \<^verbatim>\<open>{name, labels, sampleWindow, resources}\<close>; the declaration of the type is not among the
  sources. The resources are the field \<open>Usage\<close>.
\<close>

record NodeMetrics = ObjectMeta +
  sampleWindow :: TimeInfo
  Usage :: ResourceList

text \<open>
  Modelled from the spec: the state a request reads, of which the sources only show the
  constructor call in \<^verbatim>\<open>NewTestNodeStorage\<close>. \<open>nodeLister\<close> is the live Node Registry (the
  \<^verbatim>\<open>data\<close> of the \<^verbatim>\<open>fakeNodeLister\<close>), \<open>metrics\<close> the current Snapshot of the Metrics
  Store: the ordered sequence of the entries of the nodes that reported.
\<close>

record nodeMetrics =
  nodeLister :: "Node list"
  metrics :: "NodeMetrics list"

text \<open>
  Modelled from the spec: the invariant of a Snapshot that section 3 states, one entry per
  node that reported: no two entries have the same name.
\<close>

definition oneEntryPerNode :: "NodeMetrics list \<Rightarrow> bool" where
  "oneEntryPerNode ms = distinct (map Name ms)"

text \<open>The typed not-found condition, \<^verbatim>\<open>apierrors.NewNotFound(resource, name)\<close>.\<close>

datatype Error = NotFound (ErrResource: string) (ErrName: string)

subsection \<open>The registry fake and the selectors of the tests (from the test file)\<close>

text \<open>\<^verbatim>\<open>fakeNodeLister.List\<close>: the nodes whose labels the selector matches, in the order of
  \<^verbatim>\<open>data\<close>; the error is always nil.\<close>

definition fakeNodeLister_List :: "Node list \<Rightarrow> Selector \<Rightarrow> Node list" where
  "fakeNodeLister_List data selector = filter (\<lambda>node. selector (Labels node)) data"

text \<open>\<^verbatim>\<open>fakeNodeLister.Get\<close>: the first node of that name, or NotFound for the resource
  \<^verbatim>\<open>nodemetrics\<close>.\<close>

fun fakeNodeLister_Get :: "Node list \<Rightarrow> string \<Rightarrow> Error + Node" where
  "fakeNodeLister_Get [] name = Inl (NotFound ''nodemetrics'' name)"
| "fakeNodeLister_Get (node # data) name =
     (if Name node = name then Inr node else fakeNodeLister_Get data name)"

fun nodeLabels :: "string \<Rightarrow> Set" where
  "nodeLabels name =
     (if name = ''node1'' then [''labelKey'' \<mapsto> ''labelValue'']
      else if name = ''node2'' then [''otherKey'' \<mapsto> ''labelValue'']
      else if name = ''node3'' then [''labelKey'' \<mapsto> ''otherValue'']
      else Map.empty)"

definition createTestNodes :: "Node list" where
  "createTestNodes =
     [\<lparr>Name = ''node1'', Labels = nodeLabels ''node1''\<rparr>,
      \<lparr>Name = ''node2'', Labels = nodeLabels ''node2''\<rparr>,
      \<lparr>Name = ''node3'', Labels = nodeLabels ''node3''\<rparr>]"

text \<open>
  \<^verbatim>\<open>labels.SelectorFromSet\<close> and \<^verbatim>\<open>fields.SelectorFromSet\<close> of the apimachinery library,
  applied to a map literal given by its entries: every entry is an equality requirement.
  A label requirement needs the key to be present; a field requirement compares with
  \<^verbatim>\<open>ls.Get(field)\<close>, which is the empty string for a missing field.
\<close>

definition labels_SelectorFromSet :: "(string \<times> string) list \<Rightarrow> Selector" where
  "labels_SelectorFromSet ls = (\<lambda>set. list_all (\<lambda>(k, v). set k = Some v) ls)"

definition fields_SelectorFromSet :: "(string \<times> string) list \<Rightarrow> Selector" where
  "fields_SelectorFromSet ls =
     (\<lambda>set. list_all (\<lambda>(k, v). (case set k of Some x \<Rightarrow> x | None \<Rightarrow> []) = v) ls)"

record ListOptions =
  LabelSelector :: "Selector option"
  FieldSelector :: "Selector option"

text \<open>
  \<^verbatim>\<open>NewTestNodeStorage\<close>. The fake getter holds three readings
  (\<^verbatim>\<open>time\<close>, \<^verbatim>\<open>resources\<close>) and returns them whatever names it is asked for; reading \<open>i\<close>
  belongs to node \<open>i\<close> of \<^verbatim>\<open>createTestNodes\<close>, as the rows that
  \<^verbatim>\<open>TestNodeList_ConvertToTable\<close> expects show (node1 with 10m and a window of 1000 ns,
  node2 with 2000 ns, node3 with 3000 ns). \<open>readings\<close> pairs them up into the entries of a
  Snapshot, the labels copied from the registry. \<open>now\<close> is \<^verbatim>\<open>myClock.Now()\<close> at the time
  of the call.
\<close>

definition readings :: "Node list \<Rightarrow> TimeInfo list \<Rightarrow> ResourceList list \<Rightarrow> NodeMetrics list" where
  "readings nodes time resources =
     map (\<lambda>(node, t, u). \<lparr>Name = Name node, Labels = Labels node, sampleWindow = t, Usage = u\<rparr>)
       (zip nodes (zip time resources))"

definition NewTestNodeStorage :: "Time \<Rightarrow> nodeMetrics" where
  "NewTestNodeStorage now =
     \<lparr>nodeLister = createTestNodes,
      metrics = readings createTestNodes
        [\<lparr>Timestamp = now, Window = 1000\<rparr>,
         \<lparr>Timestamp = now, Window = 2000\<rparr>,
         \<lparr>Timestamp = now, Window = 3000\<rparr>]
        [[(''res1'', ''10m'')], [(''res2'', ''5Mi'')], [(''res3'', ''1'')]]\<rparr>"

subsection \<open>The freshness histogram\<close>

text \<open>
  Modelled from the spec: the histogram \<^verbatim>\<open>metric_freshness_seconds\<close> (section 6), whose
  declaration is not among the sources: fixed bucket boundaries, one observation per served
  entry, the entry's sample age in seconds, resettable. The boundaries are those of the
  exposition that \<^verbatim>\<open>TestNodeList_Monitoring\<close> expects; a bucket labelled \<^verbatim>\<open>le="b"\<close> counts
  the observations \<open>v \<le> b\<close>. The state is what a histogram keeps: a counter per bucket
  (an observation goes to the first bucket whose boundary it does not exceed, or to none,
  which is the \<^verbatim>\<open>+Inf\<close> bucket), the number of observations and their sum. Seconds are
  exact rationals here, where the program computes with \<^verbatim>\<open>float64\<close>.
\<close>

record Histogram =
  upperBounds :: "rat list"
  counts :: "nat list"
  sampleCount :: nat
  sampleSum :: rat

definition metricFreshness_buckets :: "rat list" where
  "metricFreshness_buckets =
     [1, 1.364, 1.8604960000000004, 2.5377165440000007, 3.4614453660160014,
      4.721411479245826, 6.440005257691307, 8.784167171490942, 11.981604021913647,
      16.342907885890217, 22.291726356354257, 30.405914750067208, 41.47366771909167,
      56.57008276884105, 77.16159289669919, 105.2484127110977, 143.55883493793726,
      195.81425085534644, 267.09063816669254, 364.31163045936864]"

text \<open>\<^verbatim>\<open>metricFreshness.Reset()\<close>: no observation yet.\<close>

definition Reset :: "rat list \<Rightarrow> Histogram" where
  "Reset bounds =
     \<lparr>upperBounds = bounds, counts = replicate (length bounds) 0, sampleCount = 0, sampleSum = 0\<rparr>"

definition Observe :: "Histogram \<Rightarrow> rat \<Rightarrow> Histogram" where
  "Observe h v =
     (let i = length (takeWhile (\<lambda>b. b < v) (upperBounds h)) in
      h\<lparr>counts := (if i < length (counts h) then (counts h)[i := counts h ! i + 1] else counts h),
        sampleCount := sampleCount h + 1,
        sampleSum := sampleSum h + v\<rparr>)"

text \<open>The exposition: for every boundary the cumulative count (the \<^verbatim>\<open>_bucket\<close> lines but
  the \<^verbatim>\<open>+Inf\<close> one, whose value is the count).\<close>

definition bucketLines :: "Histogram \<Rightarrow> (rat \<times> nat) list" where
  "bucketLines h =
     map (\<lambda>i. (upperBounds h ! i, sum_list (take (Suc i) (counts h)))) [0..<length (upperBounds h)]"

text \<open>What \<^verbatim>\<open>TestNodeList_Monitoring\<close> compares the exposition with (from the test file):
  the \<^verbatim>\<open>_bucket\<close> lines up to \<^verbatim>\<open>+Inf\<close>, the \<^verbatim>\<open>+Inf\<close> line, the sum and the count.\<close>

definition TestNodeList_Monitoring_expected :: "(rat \<times> nat) list \<times> nat \<times> rat \<times> nat" where
  "TestNodeList_Monitoring_expected =
     ([(1, 0), (1.364, 0), (1.8604960000000004, 0), (2.5377165440000007, 0),
       (3.4614453660160014, 0), (4.721411479245826, 0), (6.440005257691307, 0),
       (8.784167171490942, 0), (11.981604021913647, 3), (16.342907885890217, 3),
       (22.291726356354257, 3), (30.405914750067208, 3), (41.47366771909167, 3),
       (56.57008276884105, 3), (77.16159289669919, 3), (105.2484127110977, 3),
       (143.55883493793726, 3), (195.81425085534644, 3), (267.09063816669254, 3),
       (364.31163045936864, 3)],
      3, 30, 3)"

definition exposition :: "Histogram \<Rightarrow> (rat \<times> nat) list \<times> nat \<times> rat \<times> nat" where
  "exposition h = (bucketLines h, sampleCount h, sampleSum h, sampleCount h)"

definition Seconds :: "Duration \<Rightarrow> rat" where
  "Seconds d = of_int d / 1000000000"

text \<open>Modelled from the spec: the age of a served entry (section 4.3, freshness
  recording), \<^verbatim>\<open>now - entry.sampleWindow.timestamp\<close>, in seconds.\<close>

definition age :: "Time \<Rightarrow> NodeMetrics \<Rightarrow> rat" where
  "age now m = Seconds (now - Timestamp (sampleWindow m))"

text \<open>Modelled from the spec: freshness recording (section 4.3), one observation for each
  returned entry, in the order of the result.\<close>

definition recordFreshness :: "Time \<Rightarrow> Histogram \<Rightarrow> NodeMetrics list \<Rightarrow> Histogram" where
  "recordFreshness now h items = foldl (\<lambda>h m. Observe h (age now m)) h items"

subsection \<open>Get and List\<close>

text \<open>
  Modelled from the spec: the registry interface of section 6,
  \<^verbatim>\<open>GetNode(name) -> (labels, found)\<close>, read off the lister; a node that is not found has
  Go's zero value for its labels, the empty map.
\<close>

definition GetNode :: "Node list \<Rightarrow> string \<Rightarrow> Set \<times> bool" where
  "GetNode registry name =
     (case fakeNodeLister_Get registry name of
        Inr node \<Rightarrow> (Labels node, True)
      | Inl err \<Rightarrow> (Map.empty, False))"

text \<open>
  Modelled from the spec: the conversion of a Snapshot entry to what a request returns
  (section 4.3, Get), with its labels resolved from the registry at query time, not those
  frozen into the Snapshot.
\<close>

definition withLiveLabels :: "Node list \<Rightarrow> NodeMetrics \<Rightarrow> NodeMetrics" where
  "withLiveLabels registry m = m\<lparr>Labels := fst (GetNode registry (Name m))\<rparr>"

text \<open>
  Modelled from the spec: the field set of an entry (section 4.3, List),
  \<^verbatim>\<open>{metadata.name: name, metadata.namespace: namespace-or-empty}\<close>; a node has no
  namespace.
\<close>

definition fieldsSet :: "NodeMetrics \<Rightarrow> Set" where
  "fieldsSet m = [''metadata.name'' \<mapsto> Name m, ''metadata.namespace'' \<mapsto> []]"

text \<open>
  Modelled from the spec: the selectors of a request (section 4.3, List). Absent options
  or an absent selector match everything.
\<close>

definition labelSelector :: "ListOptions option \<Rightarrow> Selector" where
  "labelSelector options =
     (case options of
        None \<Rightarrow> (\<lambda>set. True)
      | Some opts \<Rightarrow> (case LabelSelector opts of None \<Rightarrow> (\<lambda>set. True) | Some sel \<Rightarrow> sel))"

definition fieldSelector :: "ListOptions option \<Rightarrow> Selector" where
  "fieldSelector options =
     (case options of
        None \<Rightarrow> (\<lambda>set. True)
      | Some opts \<Rightarrow> (case FieldSelector opts of None \<Rightarrow> (\<lambda>set. True) | Some sel \<Rightarrow> sel))"

text \<open>
  Modelled from the spec: whether a Snapshot entry is selected (section 4.3, List): its
  field set against the field selector and the live registry labels of its node against
  the label selector, both conjoined.
\<close>

definition selected :: "Node list \<Rightarrow> ListOptions option \<Rightarrow> NodeMetrics \<Rightarrow> bool" where
  "selected registry options m =
     (labelSelector options (fst (GetNode registry (Name m))) \<and>
      fieldSelector options (fieldsSet m))"

text \<open>
  Modelled from the spec: \<^verbatim>\<open>List\<close> (section 4.3), which is not among the sources. The
  selected entries of the current Snapshot, in Snapshot order, each with its live labels;
  an empty collection when nothing matches. Every returned entry is recorded into the
  freshness histogram, which is the second component of the result. \<open>now\<close> is the clock
  at the request.
\<close>

definition List ::
  "Time \<Rightarrow> Histogram \<Rightarrow> nodeMetrics \<Rightarrow> ListOptions option \<Rightarrow> (Error + NodeMetrics list) \<times> Histogram" where
  "List now h r options =
     (let items = map (withLiveLabels (nodeLister r))
                    (filter (selected (nodeLister r) options) (metrics r))
      in (Inr items, recordFreshness now h items))"

text \<open>
  Modelled from the spec: \<^verbatim>\<open>Get\<close> (section 4.3), which is not among the sources. The one
  entry of the current Snapshot with that name, with its live labels, recorded into the
  freshness histogram; NotFound with the resource kind and the requested name when the
  Snapshot has no such entry.
\<close>

definition Get ::
  "Time \<Rightarrow> Histogram \<Rightarrow> nodeMetrics \<Rightarrow> string \<Rightarrow> (Error + NodeMetrics) \<times> Histogram" where
  "Get now h r name =
     (case find (\<lambda>m. Name m = name) (metrics r) of
        None \<Rightarrow> (Inl (NotFound ''nodemetrics'' name), h)
      | Some m \<Rightarrow>
          (let item = withLiveLabels (nodeLister r) m
           in (Inr item, recordFreshness now h [item])))"

text \<open>What \<^verbatim>\<open>testNode\<close> checks of a returned entry (from the test file): the name, and the
  labels against \<^verbatim>\<open>nodeLabels\<close> of the wanted name.\<close>

definition testNode :: "NodeMetrics \<Rightarrow> string \<Rightarrow> bool" where
  "testNode got wantName = (Name got = wantName \<and> Labels got = nodeLabels wantName)"

subsection \<open>ConvertToTable\<close>

text \<open>
  \<^verbatim>\<open>time.Duration.String()\<close> of Go's standard library, the human-readable rendering of a
  duration. The library fills a buffer from its right end; here the buffer is the text
  written so far, and writing puts a byte in front of it. \<open>digitByte d\<close> is
  \<^verbatim>\<open>byte(d) + '0'\<close> for a digit.
\<close>

definition digitByte :: "nat \<Rightarrow> char" where
  "digitByte d = ''0123456789'' ! d"

text \<open>\<^verbatim>\<open>fmtInt\<close>: the decimal digits of \<open>v\<close>, a single 0 for zero.\<close>

fun fmtInt_loop :: "string \<Rightarrow> nat \<Rightarrow> string" where
  "fmtInt_loop buf v =
     (if v > 0 then fmtInt_loop (digitByte (v mod 10) # buf) (v div 10) else buf)"

definition fmtInt :: "string \<Rightarrow> nat \<Rightarrow> string" where
  "fmtInt buf v = (if v = 0 then CHR ''0'' # buf else fmtInt_loop buf v)"

text \<open>
  \<^verbatim>\<open>fmtFrac\<close>: the last \<open>prec\<close> digits of \<open>v\<close> as a fraction, trailing zeros omitted,
  and the point too when nothing is left; it returns \<open>v\<close> without these digits as well.
  The loop has \<open>n\<close> iterations to go.
\<close>

fun fmtFrac_loop :: "string \<Rightarrow> nat \<Rightarrow> nat \<Rightarrow> bool \<Rightarrow> string \<times> nat \<times> bool" where
  "fmtFrac_loop buf v n print =
     (if n = 0 then (buf, v, print)
      else (let digit = v mod 10;
                print' = (print \<or> digit \<noteq> 0)
            in fmtFrac_loop (if print' then digitByte digit # buf else buf) (v div 10) (n - 1) print'))"

definition fmtFrac :: "string \<Rightarrow> nat \<Rightarrow> nat \<Rightarrow> string \<times> nat" where
  "fmtFrac buf v prec =
     (case fmtFrac_loop buf v prec False of
        (buf', v', print) \<Rightarrow> ((if print then CHR ''.'' # buf' else buf'), v'))"

text \<open>Below a second the unit is ns, \<^verbatim>\<open>\<mu>s\<close> (the micro sign is the two bytes 0xC2 0xB5) or
  ms; from a second on the text has hours, minutes and seconds; zero is \<open>0s\<close>.\<close>

definition Duration_String :: "Duration \<Rightarrow> string" where
  "Duration_String d =
     (let u = nat \<bar>d\<bar>;
          neg = (d < 0);
          buf =
            (if u < 1000000000 then
               (if u = 0 then ''0s''
                else
                  (let (prec, unit) =
                         (if u < 1000 then (0, ''ns'')
                          else if u < 1000000 then (3, [CHR 0xC2, CHR 0xB5] @ ''s'')
                          else (6, ''ms''))
                   in case fmtFrac unit u prec of (buf, u') \<Rightarrow> fmtInt buf u'))
             else
               (case fmtFrac ''s'' u 9 of
                  (buf, secs) \<Rightarrow>
                    (let buf = fmtInt buf (secs mod 60);
                         mins = secs div 60
                     in if mins > 0 then
                          (let buf = fmtInt (CHR ''m'' # buf) (mins mod 60);
                               hours = mins div 60
                           in if hours > 0 then fmtInt (CHR ''h'' # buf) hours else buf)
                        else buf)))
      in if neg then CHR ''-'' # buf else buf)"

text \<open>A table (\<^verbatim>\<open>metav1.Table\<close>) as far as the test reads it: every column definition is
  its \<^verbatim>\<open>Name\<close>, every row its \<^verbatim>\<open>Cells\<close>.\<close>

record Table =
  ColumnDefinitions :: "string list"
  Rows :: "string list list"

text \<open>The object handed to \<^verbatim>\<open>ConvertToTable\<close>: the result of a \<^verbatim>\<open>List\<close> or of a
  \<^verbatim>\<open>Get\<close>.\<close>

datatype Object = NodeMetricsList (Items: "NodeMetrics list") | NodeMetricsItem NodeMetrics

fun entries :: "Object \<Rightarrow> NodeMetrics list" where
  "entries (NodeMetricsList items) = items"
| "entries (NodeMetricsItem item) = [item]"

text \<open>The resource kinds of an entry, each once, sorted by name.\<close>

definition kinds :: "NodeMetrics \<Rightarrow> string list" where
  "kinds m = sort (remdups (map fst (Usage m)))"

text \<open>The column set that the specification words: the resource kinds present in any of
  the input entries, each once, sorted by name.\<close>

definition unionKinds :: "NodeMetrics list \<Rightarrow> string list" where
  "unionKinds items = sort (remdups (concat (map (\<lambda>m. map fst (Usage m)) items)))"

text \<open>
  Modelled from the spec: the resource columns of \<^verbatim>\<open>ConvertToTable\<close> (section 4.3), which
  is not among the sources. The specification derives them from whichever resource kinds
  appear; \<^verbatim>\<open>TestNodeList_ConvertToTable\<close> settles where they are taken from: for the three
  entries of the fixture, which carry res1, res2 and res3, it expects the column after res1
  to be Window, and the cell of node2 and node3 under res1 to be 0. So the columns are the
  resource kinds of the first entry, in the specification's sorted order, and there is none
  for an empty input.
\<close>

definition resourceColumns :: "NodeMetrics list \<Rightarrow> string list" where
  "resourceColumns items = (case items of [] \<Rightarrow> [] | first # rest \<Rightarrow> kinds first)"

text \<open>
  Modelled from the spec: a cell under a resource column (section 4.3): the quantity in
  its string form; for a kind the entry does not have, the zero quantity, whose string
  form is 0 (what the test expects of node2 and node3 under res1).
\<close>

definition quantityCell :: "NodeMetrics \<Rightarrow> string \<Rightarrow> string" where
  "quantityCell m kind = (case map_of (Usage m) kind of Some q \<Rightarrow> q | None \<Rightarrow> ''0'')"

text \<open>
  Modelled from the spec: \<^verbatim>\<open>ConvertToTable\<close> (section 4.3), which is not among the
  sources: one row per entry; the columns Name, the resource columns, Window; the cells of
  a row in the order of the columns, the window as a human-readable duration.
\<close>

definition ConvertToTable :: "Object \<Rightarrow> Error + Table" where
  "ConvertToTable object =
     (let items = entries object;
          names = resourceColumns items
      in Inr \<lparr>ColumnDefinitions = [''Name''] @ names @ [''Window''],
               Rows = map (\<lambda>m. [Name m] @ map (quantityCell m) names @
                                 [Duration_String (Window (sampleWindow m))]) items\<rparr>)"

text \<open>Indexing as Go does it: out of range is a panic, here \<open>None\<close>.\<close>

definition elemAt :: "'a list \<Rightarrow> nat \<Rightarrow> 'a option" where
  "elemAt xs i = (if i < length xs then Some (xs ! i) else None)"

text \<open>
  What \<^verbatim>\<open>TestNodeList_ConvertToTable\<close> asserts of the table (from the test file): the
  negation of the condition under which it reports an error; the test also fails when an
  index is out of range.
\<close>

definition TestNodeList_ConvertToTable_assert :: "Table \<Rightarrow> bool" where
  "TestNodeList_ConvertToTable_assert res =
     (length (Rows res) = 3 \<and>
      elemAt (ColumnDefinitions res) 1 = Some ''res1'' \<and>
      elemAt (ColumnDefinitions res) 2 = Some ''Window'' \<and>
      elemAt (Rows res ! 0) 0 = Some ''node1'' \<and>
      elemAt (Rows res ! 0) 1 = Some ''10m'' \<and>
      elemAt (Rows res ! 0) 2 = Some (''1'' @ [CHR 0xC2, CHR 0xB5] @ ''s'') \<and>
      elemAt (Rows res ! 1) 0 = Some ''node2'' \<and>
      elemAt (Rows res ! 1) 1 = Some ''0'' \<and>
      elemAt (Rows res ! 1) 2 = Some (''2'' @ [CHR 0xC2, CHR 0xB5] @ ''s'') \<and>
      elemAt (Rows res ! 2) 0 = Some ''node3'' \<and>
      elemAt (Rows res ! 2) 1 = Some ''0'' \<and>
      elemAt (Rows res ! 2) 2 = Some (''3'' @ [CHR 0xC2, CHR 0xB5] @ ''s''))"

section \<open>Properties of the lint tool\<close>

subsection \<open>The library functions\<close>


lemma HasSuffix_f: "HasSuffix s ''f'' \<longleftrightarrow> (s \<noteq> [] \<and> last s = CHR ''f'')"
proof (cases s rule: rev_cases)
  case Nil
  then show ?thesis by (simp add: HasSuffix_def)
next
  case (snoc ys y)
  then show ?thesis by (auto simp add: HasSuffix_def)
qed

lemma Contains_iff: "Contains s sub \<longleftrightarrow> (\<exists>pre post. s = pre @ sub @ post)"
proof (induction s)
  case Nil
  then show ?case by auto
next
  case (Cons c cs)
  show ?case
  proof
    assume "Contains (c # cs) sub"
    then consider "prefix sub (c # cs)" | "Contains cs sub" by auto
    then show "\<exists>pre post. c # cs = pre @ sub @ post"
    proof cases
      case 1
      then obtain post where "c # cs = sub @ post" by (auto simp: prefix_def)
      then have "c # cs = [] @ sub @ post" by simp
      then show ?thesis by blast
    next
      case 2
      with Cons.IH obtain pre post where "cs = pre @ sub @ post" by blast
      then have "c # cs = (c # pre) @ sub @ post" by simp
      then show ?thesis by blast
    qed
  next
    assume "\<exists>pre post. c # cs = pre @ sub @ post"
    then obtain pre post where e: "c # cs = pre @ sub @ post" by blast
    show "Contains (c # cs) sub"
    proof (cases pre)
      case Nil
      with e have "prefix sub (c # cs)" by (simp add: prefix_def)
      then show ?thesis by simp
    next
      case (Cons p ps)
      with e have "cs = ps @ sub @ post" by simp
      with Cons.IH have "Contains cs sub" by blast
      then show ?thesis by simp
    qed
  qed
qed

lemma firstSpecifier_Some:
  "firstSpecifier v l = Some s \<Longrightarrow> s \<in> set l \<and> Contains v s"
  by (induction l) (auto split: if_splits)

lemma firstSpecifier_None:
  "firstSpecifier v l = None \<longleftrightarrow> (\<forall>s \<in> set l. \<not> Contains v s)"
  by (induction l) auto

lemma hasFormatSpecifier_found:
  "snd (hasFormatSpecifier args) \<longleftrightarrow>
     (\<exists>a \<in> set args. \<exists>p k v. a = BasicLit p k v \<and> (\<exists>s \<in> set formatSpecifiers. Contains v s))"
proof (induction args rule: hasFormatSpecifier.induct)
  case 1
  then show ?case by simp
next
  case (2 p k v fArgs)
  show ?case
  proof (cases "firstSpecifier v formatSpecifiers")
    case None
    then have "\<forall>s \<in> set formatSpecifiers. \<not> Contains v s" by (simp add: firstSpecifier_None)
    with 2[OF None] None show ?thesis by simp
  next
    case (Some s)
    then show ?thesis using firstSpecifier_Some[OF Some] by auto
  qed
qed auto

lemma hasFormatSpecifier_which:
  "hasFormatSpecifier args = (s, True) \<Longrightarrow> s \<in> set formatSpecifiers"
proof (induction args rule: hasFormatSpecifier.induct)
  case (2 p k v fArgs)
  then show ?case by (auto split: option.splits dest: firstSpecifier_Some)
qed auto


lemma checkKey_append: "checkKey arg fpos pass = pass @ checkKey arg fpos []"
  by (cases arg) (auto simp: Report_def)

lemma keysLoop_append: "keysLoop i args fpos pass = pass @ keysLoop i args fpos []"
proof (induction args arbitrary: i pass)
  case Nil
  then show ?case by simp
next
  case (Cons a args)
  show ?case
  proof (cases "i mod 2 \<noteq> 0")
    case True
    then show ?thesis using Cons.IH[of "i + 1" pass] by simp
  next
    case False
    have "keysLoop i (a # args) fpos pass = keysLoop (i + 1) args fpos (checkKey a fpos pass)"
      using False by simp
    also have "\<dots> = checkKey a fpos pass @ keysLoop (i + 1) args fpos []"
      by (rule Cons.IH)
    also have "\<dots> = pass @ checkKey a fpos [] @ keysLoop (i + 1) args fpos []"
      using checkKey_append[of a fpos pass] by simp
    also have "checkKey a fpos [] @ keysLoop (i + 1) args fpos [] = keysLoop (i + 1) args fpos (checkKey a fpos [])"
      by (rule Cons.IH[symmetric])
    finally show ?thesis using False by simp
  qed
qed

lemma keysLoop_concat:
  "keysLoop i args fpos [] =
     concat (map (\<lambda>j. checkKey (args ! j) fpos []) (filter (\<lambda>j. even (i + j)) [0..<length args]))"
proof (induction args arbitrary: i)
  case Nil
  then show ?case by simp
next
  case (Cons a args)
  have upt: "[0..<length (a # args)] = 0 # map Suc [0..<length args]"
    by (simp add: upt_conv_Cons map_Suc_upt del: upt_Suc)
  have rest: "concat (map (\<lambda>j. checkKey ((a # args) ! j) fpos []) (filter (\<lambda>j. even (i + j)) (map Suc [0..<length args])))
      = keysLoop (Suc i) args fpos []"
    by (simp add: Cons.IH[of "Suc i"] filter_map o_def)
  show ?case
  proof (cases "even i")
    case True
    then have "keysLoop i (a # args) fpos [] = checkKey a fpos [] @ keysLoop (i + 1) args fpos []"
      using keysLoop_append[of "i + 1" args fpos "checkKey a fpos []"] by (simp add: even_iff_mod_2_eq_zero)
    then show ?thesis using True rest unfolding upt by simp
  next
    case False
    then have "keysLoop i (a # args) fpos [] = keysLoop (i + 1) args fpos []"
      by (simp add: even_iff_mod_2_eq_zero)
    then show ?thesis using False rest unfolding upt by simp
  qed
qed

lemma checkKey_length:
  "length (checkKey arg fpos []) = (if (\<exists>p v. arg = BasicLit p token_STRING v \<and> IsASCII v) then 0 else 1)"
  by (cases arg) (auto simp: Report_def)

lemma keysLoop_odd_update:
  "i < length args \<Longrightarrow> odd (k + i) \<Longrightarrow> keysLoop k (args[i := e]) fpos pass = keysLoop k args fpos pass"
proof (induction args arbitrary: i k pass)
  case Nil
  then show ?case by simp
next
  case (Cons a args)
  show ?case
  proof (cases i)
    case 0
    with Cons.prems show ?thesis by (simp add: even_iff_mod_2_eq_zero)
  next
    case (Suc j)
    with Cons.prems have "j < length args" "odd (k + 1 + j)" by simp_all
    then have "\<And>pass. keysLoop (k + 1) (args[j := e]) fpos pass = keysLoop (k + 1) args fpos pass"
      using Cons.IH[of j "k + 1"] by simp
    then show ?thesis using Suc by simp
  qed
qed

lemma keysLoop_length:
  "length (concat (map (\<lambda>j. checkKey (args ! j) fpos []) js)) =
     length (filter (\<lambda>j. \<not> (\<exists>p v. args ! j = BasicLit p token_STRING v \<and> IsASCII v)) js)"
  by (induction js) (simp_all add: checkKey_length)

subsection \<open>checkForFormatSpecifier\<close>

text \<open>
  Claim C9. For a logging call \<open>x.fName(args)\<close>: when \<open>fName\<close> ends with the letter f,
  \<^verbatim>\<open>checkForFormatSpecifier\<close> returns false and reports nothing. Otherwise it returns
  true if and only if some argument is a basic literal whose text contains one of the
  format specifiers of the fixed list; when it returns true it has reported exactly one
  diagnostic, at the position of the called function, naming \<open>fName\<close> and a specifier of
  the list; when it returns false it has reported nothing.
\<close>

theorem checkForFormatSpecifier_suffix_f_or_specifier:
  "(fName \<noteq> [] \<and> last fName = CHR ''f'' \<longrightarrow>
      checkForFormatSpecifier (SelectorExpr x sp fName) args pass = (False, pass)) \<and>
   (\<not> (fName \<noteq> [] \<and> last fName = CHR ''f'') \<longrightarrow>
      (fst (checkForFormatSpecifier (SelectorExpr x sp fName) args pass) \<longleftrightarrow>
         (\<exists>a \<in> set args. \<exists>p k v. a = BasicLit p k v \<and>
            (\<exists>s \<in> set formatSpecifiers. \<exists>pre post. v = pre @ s @ post))) \<and>
      (if fst (checkForFormatSpecifier (SelectorExpr x sp fName) args pass)
       then \<exists>s \<in> set formatSpecifiers.
              snd (checkForFormatSpecifier (SelectorExpr x sp fName) args pass) =
                pass @ [\<lparr>DPos = Pos x,
                         DMessage = Sprintf ''logging function %q should not use format specifier %q''
                                      [ArgString fName, ArgString s]\<rparr>]
       else snd (checkForFormatSpecifier (SelectorExpr x sp fName) args pass) = pass))"
proof (intro conjI impI)
  assume "fName \<noteq> [] \<and> last fName = CHR ''f''"
  then have "HasSuffix fName ''f''" by (simp add: HasSuffix_f)
  then show "checkForFormatSpecifier (SelectorExpr x sp fName) args pass = (False, pass)"
    by simp
next
  assume "\<not> (fName \<noteq> [] \<and> last fName = CHR ''f'')"
  then have nf: "\<not> HasSuffix fName ''f''" by (simp add: HasSuffix_f)
  obtain s b where hb: "hasFormatSpecifier args = (s, b)" by (cases "hasFormatSpecifier args")
  have found: "b \<longleftrightarrow> (\<exists>a \<in> set args. \<exists>p k v. a = BasicLit p k v \<and>
            (\<exists>s \<in> set formatSpecifiers. \<exists>pre post. v = pre @ s @ post))"
    using hasFormatSpecifier_found[of args] hb by (simp add: Contains_iff)
  have res: "checkForFormatSpecifier (SelectorExpr x sp fName) args pass =
      (if b then (True, pass @ [\<lparr>DPos = Pos x,
                         DMessage = Sprintf ''logging function %q should not use format specifier %q''
                                      [ArgString fName, ArgString s]\<rparr>])
       else (False, pass))"
    using nf hb by (simp add: Report_def)
  show "fst (checkForFormatSpecifier (SelectorExpr x sp fName) args pass) \<longleftrightarrow>
         (\<exists>a \<in> set args. \<exists>p k v. a = BasicLit p k v \<and>
            (\<exists>s \<in> set formatSpecifiers. \<exists>pre post. v = pre @ s @ post))"
    using res found by simp
  show "if fst (checkForFormatSpecifier (SelectorExpr x sp fName) args pass)
       then \<exists>s \<in> set formatSpecifiers.
              snd (checkForFormatSpecifier (SelectorExpr x sp fName) args pass) =
                pass @ [\<lparr>DPos = Pos x,
                         DMessage = Sprintf ''logging function %q should not use format specifier %q''
                                      [ArgString fName, ArgString s]\<rparr>]
       else snd (checkForFormatSpecifier (SelectorExpr x sp fName) args pass) = pass"
  proof (cases b)
    case True
    with hb have "s \<in> set formatSpecifiers" by (simp add: hasFormatSpecifier_which)
    with True res show ?thesis by auto
  next
    case False
    with res show ?thesis by simp
  qed
qed

text \<open>
  The theorem at two calls with the arguments \<open>x\<close> and \<open>"a %d b %v"\<close>: \<open>klog.Infof\<close>
  is let through, \<open>klog.InfoS\<close> is reported once, and the flag is true.
\<close>

theorem checkForFormatSpecifier_suffix_f_or_specifier_witness:
  "checkForFormatSpecifier (SelectorExpr (Ident 1 ''klog'') 6 ''Infof'')
      [Ident 12 ''x'', BasicLit 15 token_STRING ''\"a %d b %v\"''] [] = (False, []) \<and>
   fst (checkForFormatSpecifier (SelectorExpr (Ident 1 ''klog'') 6 ''InfoS'')
      [Ident 12 ''x'', BasicLit 15 token_STRING ''\"a %d b %v\"''] []) \<and>
   length (snd (checkForFormatSpecifier (SelectorExpr (Ident 1 ''klog'') 6 ''InfoS'')
      [Ident 12 ''x'', BasicLit 15 token_STRING ''\"a %d b %v\"''] [])) = 1"
proof -
  let ?args = "[Ident 12 ''x'', BasicLit 15 token_STRING ''\"a %d b %v\"'']"
  have "''\"a %d b %v\"'' = ''\"a '' @ ''%d'' @ '' b %v\"''" by simp
  then have lit: "\<exists>a \<in> set ?args. \<exists>p k v. a = BasicLit p k v \<and>
            (\<exists>s \<in> set formatSpecifiers. \<exists>pre post. v = pre @ s @ post)"
    unfolding formatSpecifiers_def by (intro bexI[of _ "BasicLit 15 token_STRING ''\"a %d b %v\"''"] exI conjI bexI[of _ "''%d''"]) (assumption | simp)+
  have f: "''Infof'' \<noteq> [] \<and> last ''Infof'' = CHR ''f''" by simp
  have s: "\<not> (''InfoS'' \<noteq> [] \<and> last ''InfoS'' = CHR ''f'')" by simp
  note t1 = checkForFormatSpecifier_suffix_f_or_specifier[of "''Infof''" "Ident 1 ''klog''" 6 ?args "[]"]
  note t2 = checkForFormatSpecifier_suffix_f_or_specifier[of "''InfoS''" "Ident 1 ''klog''" 6 ?args "[]"]
  from t1 f have a: "checkForFormatSpecifier (SelectorExpr (Ident 1 ''klog'') 6 ''Infof'') ?args [] = (False, [])"
    by blast
  from t2 s lit have b: "fst (checkForFormatSpecifier (SelectorExpr (Ident 1 ''klog'') 6 ''InfoS'') ?args [])"
    by blast
  from t2 s b have "\<exists>s \<in> set formatSpecifiers.
      snd (checkForFormatSpecifier (SelectorExpr (Ident 1 ''klog'') 6 ''InfoS'') ?args []) =
        [] @ [\<lparr>DPos = Pos (Ident 1 ''klog''),
                DMessage = Sprintf ''logging function %q should not use format specifier %q''
                             [ArgString ''InfoS'', ArgString s]\<rparr>]"
    by (metis (no_types, lifting))
  then have c: "length (snd (checkForFormatSpecifier (SelectorExpr (Ident 1 ''klog'') 6 ''InfoS'') ?args [])) = 1"
    by auto
  from a b c show ?thesis by blast
qed

subsection \<open>isKeysValid\<close>

text \<open>
  Claim C10. For a key/value argument list handed to \<^verbatim>\<open>isKeysValid\<close>: when its length is
  odd, exactly one diagnostic is reported, the one saying that the additional arguments
  should always be key/value pairs, and no argument is checked. When its length is even,
  the diagnostics reported are those of the arguments at the even indices, in order; such
  an argument yields no diagnostic when it is a string basic literal whose text is ASCII
  and exactly one otherwise, so their number is the number of even indices whose argument
  is not such a literal; and the result does not depend on the arguments at the odd
  indices.
\<close>

theorem isKeysValid_pairs_and_keys:
  "(odd (length keyValues) \<longrightarrow>
      isKeysValid keyValues fn pass funName =
        pass @ [\<lparr>DPos = Pos fn,
                 DMessage = Sprintf ''Additional arguments to %s should always be Key Value pairs. Please check if there is any key or value missing.''
                              [ArgString funName]\<rparr>]) \<and>
   (even (length keyValues) \<longrightarrow>
      isKeysValid keyValues fn pass funName =
        pass @ concat (map (\<lambda>i. checkKey (keyValues ! i) (Pos fn) [])
                        (filter even [0..<length keyValues])) \<and>
      length (isKeysValid keyValues fn pass funName) =
        length pass +
        length (filter (\<lambda>i. even i \<and>
                   \<not> (\<exists>p v. keyValues ! i = BasicLit p token_STRING v \<and> IsASCII v))
                 [0..<length keyValues]) \<and>
      (\<forall>i < length keyValues.
         length (checkKey (keyValues ! i) (Pos fn) []) =
           (if \<exists>p v. keyValues ! i = BasicLit p token_STRING v \<and> IsASCII v then 0 else 1)) \<and>
      (\<forall>i e. i < length keyValues \<and> odd i \<longrightarrow>
         isKeysValid (keyValues[i := e]) fn pass funName =
           isKeysValid keyValues fn pass funName))"
proof (intro conjI impI allI)
  assume "odd (length keyValues)"
  then show "isKeysValid keyValues fn pass funName =
        pass @ [\<lparr>DPos = Pos fn,
                 DMessage = Sprintf ''Additional arguments to %s should always be Key Value pairs. Please check if there is any key or value missing.''
                              [ArgString funName]\<rparr>]"
    by (simp add: isKeysValid_def Report_def msgKeyValuePairs_def odd_iff_mod_2_eq_one)
next
  assume ev: "even (length keyValues)"
  then have loop: "isKeysValid keyValues fn pass funName = keysLoop 0 keyValues (Pos fn) pass"
    by (simp add: isKeysValid_def even_iff_mod_2_eq_zero)
  show eq: "isKeysValid keyValues fn pass funName =
        pass @ concat (map (\<lambda>i. checkKey (keyValues ! i) (Pos fn) [])
                        (filter even [0..<length keyValues]))"
    using loop keysLoop_append[of 0 keyValues "Pos fn" pass]
      keysLoop_concat[of 0 keyValues "Pos fn"] by simp
  show "length (isKeysValid keyValues fn pass funName) =
        length pass +
        length (filter (\<lambda>i. even i \<and>
                   \<not> (\<exists>p v. keyValues ! i = BasicLit p token_STRING v \<and> IsASCII v))
                 [0..<length keyValues])"
    using keysLoop_length[of keyValues "Pos fn" "filter even [0..<length keyValues]"]
    by (simp add: eq conj_commute)
next
  fix i
  assume "even (length keyValues)" "i < length keyValues"
  show "length (checkKey (keyValues ! i) (Pos fn) []) =
           (if \<exists>p v. keyValues ! i = BasicLit p token_STRING v \<and> IsASCII v then 0 else 1)"
    by (rule checkKey_length)
next
  fix i e
  assume ev: "even (length keyValues)" and i: "i < length keyValues \<and> odd i"
  then have "keysLoop 0 (keyValues[i := e]) (Pos fn) pass = keysLoop 0 keyValues (Pos fn) pass"
    using keysLoop_odd_update[of i keyValues 0 e "Pos fn" pass] by simp
  then show "isKeysValid (keyValues[i := e]) fn pass funName =
           isKeysValid keyValues fn pass funName"
    using ev by (simp add: isKeysValid_def)
qed

text \<open>
  The theorem at the argument lists \<open>"key"\<close> (odd length: the one diagnostic) and
  \<open>"key", v, 1, "\<mu>"\<close> (even length: the key \<open>1\<close> is reported, the non-ASCII value is
  not, and replacing that value changes nothing).
\<close>


theorem isKeysValid_pairs_and_keys_witness:
  "isKeysValid [BasicLit 20 token_STRING ''\"key\"''] (Ident 1 ''klog'') [] ''InfoS'' =
     [\<lparr>DPos = 1,
       DMessage = Sprintf ''Additional arguments to %s should always be Key Value pairs. Please check if there is any key or value missing.''
                    [ArgString ''InfoS'']\<rparr>] \<and>
   length (isKeysValid
             [BasicLit 20 token_STRING ''\"key\"'', Ident 27 ''v'',
              BasicLit 30 token_INT ''1'', BasicLit 33 token_STRING [CHR 0x22, CHR 0xC2, CHR 0xB5, CHR 0x22]]
             (Ident 1 ''klog'') [] ''InfoS'') = 1 \<and>
   isKeysValid
     ([BasicLit 20 token_STRING ''\"key\"'', Ident 27 ''v'',
       BasicLit 30 token_INT ''1'', BasicLit 33 token_STRING [CHR 0x22, CHR 0xC2, CHR 0xB5, CHR 0x22]]
        [3 := OtherExpr 33])
     (Ident 1 ''klog'') [] ''InfoS'' =
   isKeysValid
     [BasicLit 20 token_STRING ''\"key\"'', Ident 27 ''v'',
      BasicLit 30 token_INT ''1'', BasicLit 33 token_STRING [CHR 0x22, CHR 0xC2, CHR 0xB5, CHR 0x22]]
     (Ident 1 ''klog'') [] ''InfoS''"
proof -
  let ?kvs = "[BasicLit 20 token_STRING ''\"key\"'', Ident 27 ''v'',
      BasicLit 30 token_INT ''1'', BasicLit 33 token_STRING [CHR 0x22, CHR 0xC2, CHR 0xB5, CHR 0x22]]"
  note odd_case = isKeysValid_pairs_and_keys[of "[BasicLit 20 token_STRING ''\"key\"'']" "Ident 1 ''klog''" "[]" "''InfoS''"]
  note even_case = isKeysValid_pairs_and_keys[of ?kvs "Ident 1 ''klog''" "[]" "''InfoS''"]
  have a: "isKeysValid [BasicLit 20 token_STRING ''\"key\"''] (Ident 1 ''klog'') [] ''InfoS'' =
     [\<lparr>DPos = 1,
       DMessage = Sprintf ''Additional arguments to %s should always be Key Value pairs. Please check if there is any key or value missing.''
                    [ArgString ''InfoS'']\<rparr>]"
    using odd_case by simp
  have ev: "even (length ?kvs)" by simp
  have idx: "[0..<length ?kvs] = [0, 1, 2, 3]" by (simp add: upt_rec)
  have "length (isKeysValid ?kvs (Ident 1 ''klog'') [] ''InfoS'') =
        length ([]::Diagnostic list) +
        length (filter (\<lambda>i. even i \<and>
                   \<not> (\<exists>p v. ?kvs ! i = BasicLit p token_STRING v \<and> IsASCII v))
                 [0..<length ?kvs])"
    using even_case ev by blast
  then have b: "length (isKeysValid ?kvs (Ident 1 ''klog'') [] ''InfoS'') = 1"
    unfolding idx by (simp add: IsASCII_def)
  have "3 < length ?kvs \<and> odd (3::nat)" by simp
  with even_case ev have c: "isKeysValid (?kvs[3 := OtherExpr 33]) (Ident 1 ''klog'') [] ''InfoS'' =
      isKeysValid ?kvs (Ident 1 ''klog'') [] ''InfoS''"
    by blast
  from a b c show ?thesis by blast
qed

section \<open>Properties of the node metrics resource\<close>


subsection \<open>Selection and live labels\<close>

lemma withLiveLabels_fields [simp]:
  "Name (withLiveLabels registry m) = Name m"
  "sampleWindow (withLiveLabels registry m) = sampleWindow m"
  "Usage (withLiveLabels registry m) = Usage m"
  "Labels (withLiveLabels registry m) = fst (GetNode registry (Name m))"
  by (simp_all add: withLiveLabels_def)

lemma age_withLiveLabels [simp]: "age now (withLiveLabels registry m) = age now m"
  by (simp add: age_def)

lemma fakeNodeLister_Get_Inr:
  "fakeNodeLister_Get data name = Inr node \<Longrightarrow> node \<in> set data \<and> Name node = name"
  by (induction data) (auto split: if_splits)

lemma fakeNodeLister_Get_Inl:
  "fakeNodeLister_Get data name = Inl err \<Longrightarrow>
     err = NotFound ''nodemetrics'' name \<and> name \<notin> Name ` set data"
  by (induction data) (auto split: if_splits)

lemma GetNode_found:
  "fakeNodeLister_Get registry name = Inr node \<Longrightarrow> GetNode registry name = (Labels node, True)"
  by (simp add: GetNode_def)

lemma selected_no_options [simp]: "selected registry None m"
  by (simp add: selected_def labelSelector_def fieldSelector_def)

lemma selected_no_selector [simp]:
  "selected registry (Some \<lparr>LabelSelector = None, FieldSelector = None\<rparr>) m"
  by (simp add: selected_def labelSelector_def fieldSelector_def)

lemma selected_both:
  "selected registry (Some \<lparr>LabelSelector = Some ls, FieldSelector = Some fs\<rparr>) m \<longleftrightarrow>
     ls (fst (GetNode registry (Name m))) \<and> fs (fieldsSet m)"
  by (simp add: selected_def labelSelector_def fieldSelector_def)

lemma selected_label_only:
  "selected registry (Some \<lparr>LabelSelector = Some ls, FieldSelector = None\<rparr>) m \<longleftrightarrow>
     ls (fst (GetNode registry (Name m)))"
  by (simp add: selected_def labelSelector_def fieldSelector_def)

lemma selected_field_only:
  "selected registry (Some \<lparr>LabelSelector = None, FieldSelector = Some fs\<rparr>) m \<longleftrightarrow>
     fs (fieldsSet m)"
  by (simp add: selected_def labelSelector_def fieldSelector_def)

lemma selected_by_name:
  "Name m = Name m' \<Longrightarrow> selected registry options m = selected registry options m'"
  by (simp add: selected_def fieldsSet_def)

lemma name_selector [simp]:
  "fields_SelectorFromSet [(''metadata.name'', name)] (fieldsSet m) \<longleftrightarrow> Name m = name"
  by (simp add: fields_SelectorFromSet_def fieldsSet_def)

lemma fst_List:
  "fst (List now h r options) =
     Inr (map (withLiveLabels (nodeLister r)) (filter (selected (nodeLister r) options) (metrics r)))"
  by (simp add: List_def Let_def)

lemma snd_List:
  "snd (List now h r options) =
     recordFreshness now h
       (map (withLiveLabels (nodeLister r)) (filter (selected (nodeLister r) options) (metrics r)))"
  by (simp add: List_def Let_def)

lemma filter_name_distinct:
  "distinct (map Name ms) \<Longrightarrow> m \<in> set ms \<Longrightarrow> filter (\<lambda>m'. Name m' = Name m) ms = [m]"
proof (induction ms)
  case Nil
  then show ?case by simp
next
  case (Cons a ms)
  show ?case
  proof (cases "a = m")
    case True
    with Cons.prems have "Name m \<notin> Name ` set ms" by simp
    then have "\<forall>m' \<in> set ms. Name m' \<noteq> Name m" by (metis imageI)
    then have "filter (\<lambda>m'. Name m' = Name m) ms = []" by (simp add: filter_empty_conv)
    with True show ?thesis by simp
  next
    case False
    with Cons.prems have "m \<in> set ms" "Name a \<noteq> Name m" by auto
    with Cons show ?thesis by simp
  qed
qed

lemma find_name_distinct:
  "distinct (map Name ms) \<Longrightarrow> m \<in> set ms \<Longrightarrow> find (\<lambda>m'. Name m' = Name m) ms = Some m"
  by (induction ms) (auto simp: rev_image_eqI)

lemma find_name_None: "find (\<lambda>m. Name m = name) ms = None \<longleftrightarrow> name \<notin> Name ` set ms"
  by (auto simp: find_None_iff)

lemma find_name_Some:
  "find (\<lambda>m. Name m = name) ms = Some m \<Longrightarrow> m \<in> set ms \<and> Name m = name"
  by (auto simp: find_Some_iff)

subsection \<open>The histogram\<close>

lemma Observe_fields [simp]:
  "upperBounds (Observe h v) = upperBounds h"
  "sampleCount (Observe h v) = sampleCount h + 1"
  "sampleSum (Observe h v) = sampleSum h + v"
  "length (counts (Observe h v)) = length (counts h)"
  by (simp_all add: Observe_def Let_def)

lemma recordFreshness_Nil [simp]: "recordFreshness now h [] = h"
  by (simp add: recordFreshness_def)

lemma recordFreshness_Cons [simp]:
  "recordFreshness now h (m # ms) = recordFreshness now (Observe h (age now m)) ms"
  by (simp add: recordFreshness_def)

lemma recordFreshness_foldl:
  "recordFreshness now h items = foldl Observe h (map (age now) items)"
  by (induction items arbitrary: h) simp_all

lemma recordFreshness_fields:
  "upperBounds (recordFreshness now h items) = upperBounds h"
  "length (counts (recordFreshness now h items)) = length (counts h)"
  "sampleCount (recordFreshness now h items) = sampleCount h + length items"
  "sampleSum (recordFreshness now h items) = sampleSum h + sum_list (map (age now) items)"
  by (induction items arbitrary: h) simp_all

lemma sum_list_take_update:
  "j < length xs \<Longrightarrow>
     sum_list (take n (xs[j := xs ! j + (1::nat)])) = sum_list (take n xs) + (if j < n then 1 else 0)"
proof (induction xs arbitrary: j n)
  case Nil
  then show ?case by simp
next
  case (Cons x xs)
  show ?case
  proof (cases n)
    case 0
    then show ?thesis by simp
  next
    case (Suc n')
    show ?thesis
    proof (cases j)
      case 0
      with Suc show ?thesis by simp
    next
      case (Suc j')
      with Cons.prems have "j' < length xs" by simp
      from Cons.IH[OF this, of n'] Suc \<open>n = Suc n'\<close> show ?thesis by simp
    qed
  qed
qed

lemma first_bucket_sorted:
  assumes "sorted bounds" and "i < length bounds"
  shows "length (takeWhile (\<lambda>b. b < v) bounds) \<le> i \<longleftrightarrow> v \<le> bounds ! i"
proof
  let ?j = "length (takeWhile (\<lambda>b. b < v) bounds)"
  assume le: "?j \<le> i"
  with assms have "?j < length bounds" by simp
  then have "\<not> bounds ! ?j < v" by (rule nth_length_takeWhile)
  moreover have "bounds ! ?j \<le> bounds ! i"
    using assms le by (simp add: sorted_nth_mono)
  ultimately show "v \<le> bounds ! i" by simp
next
  let ?j = "length (takeWhile (\<lambda>b. b < v) bounds)"
  assume v: "v \<le> bounds ! i"
  show "?j \<le> i"
  proof (rule ccontr)
    assume "\<not> ?j \<le> i"
    then have "i < ?j" by simp
    then have "takeWhile (\<lambda>b. b < v) bounds ! i \<in> set (takeWhile (\<lambda>b. b < v) bounds)"
      by simp
    then have "takeWhile (\<lambda>b. b < v) bounds ! i < v" by (auto dest: set_takeWhileD)
    moreover have "takeWhile (\<lambda>b. b < v) bounds ! i = bounds ! i"
      using \<open>i < ?j\<close> by (rule takeWhile_nth)
    ultimately show False using v by simp
  qed
qed

lemma cumulative_Observe:
  assumes "sorted (upperBounds h)" and "length (counts h) = length (upperBounds h)"
    and "i < length (upperBounds h)"
  shows "sum_list (take (Suc i) (counts (Observe h v))) =
           sum_list (take (Suc i) (counts h)) + (if v \<le> upperBounds h ! i then 1 else 0)"
proof -
  let ?j = "length (takeWhile (\<lambda>b. b < v) (upperBounds h))"
  have iff: "?j \<le> i \<longleftrightarrow> v \<le> upperBounds h ! i"
    using assms(1,3) by (rule first_bucket_sorted)
  show ?thesis
  proof (cases "?j < length (counts h)")
    case True
    then have "counts (Observe h v) = (counts h)[?j := counts h ! ?j + 1]"
      by (simp add: Observe_def Let_def)
    then show ?thesis using sum_list_take_update[OF True, of "Suc i"] iff by (simp add: less_Suc_eq_le)
  next
    case False
    then have "counts (Observe h v) = counts h" by (simp add: Observe_def Let_def)
    moreover from False assms have "\<not> ?j \<le> i" by simp
    ultimately show ?thesis using iff by simp
  qed
qed

lemma cumulative_recordFreshness:
  assumes "sorted (upperBounds h)" and "length (counts h) = length (upperBounds h)"
    and "i < length (upperBounds h)"
  shows "sum_list (take (Suc i) (counts (recordFreshness now h items))) =
           sum_list (take (Suc i) (counts h)) +
           length (filter (\<lambda>m. age now m \<le> upperBounds h ! i) items)"
  using assms
proof (induction items arbitrary: h)
  case Nil
  then show ?case by simp
next
  case (Cons m items)
  have "sum_list (take (Suc i) (counts (recordFreshness now (Observe h (age now m)) items))) =
          sum_list (take (Suc i) (counts (Observe h (age now m)))) +
          length (filter (\<lambda>m. age now m \<le> upperBounds (Observe h (age now m)) ! i) items)"
    using Cons.IH[of "Observe h (age now m)"] Cons.prems by simp
  then show ?case using cumulative_Observe[OF Cons.prems, of "age now m"] by simp
qed

lemma bucketLines_nth:
  "i < length (upperBounds h) \<Longrightarrow>
     bucketLines h ! i = (upperBounds h ! i, sum_list (take (Suc i) (counts h)))"
  by (simp add: bucketLines_def)

subsection \<open>The tests of the test file, run on the model\<close>

lemma fixture_nodeLister:
  "nodeLister (NewTestNodeStorage now) = createTestNodes"
  by (simp add: NewTestNodeStorage_def)

lemma fixture_metrics:
  "metrics (NewTestNodeStorage now) =
     [\<lparr>Name = ''node1'', Labels = nodeLabels ''node1'',
       sampleWindow = \<lparr>Timestamp = now, Window = 1000\<rparr>, Usage = [(''res1'', ''10m'')]\<rparr>,
      \<lparr>Name = ''node2'', Labels = nodeLabels ''node2'',
       sampleWindow = \<lparr>Timestamp = now, Window = 2000\<rparr>, Usage = [(''res2'', ''5Mi'')]\<rparr>,
      \<lparr>Name = ''node3'', Labels = nodeLabels ''node3'',
       sampleWindow = \<lparr>Timestamp = now, Window = 3000\<rparr>, Usage = [(''res3'', ''1'')]\<rparr>]"
  by (simp add: NewTestNodeStorage_def readings_def createTestNodes_def)

lemma fixture_GetNode:
  "GetNode createTestNodes ''node1'' = (nodeLabels ''node1'', True)"
  "GetNode createTestNodes ''node2'' = (nodeLabels ''node2'', True)"
  "GetNode createTestNodes ''node3'' = (nodeLabels ''node3'', True)"
  "GetNode createTestNodes ''node4'' = (Map.empty, False)"
  by (simp_all add: GetNode_def createTestNodes_def)

lemma fixture_List_all:
  "fst (List now h (NewTestNodeStorage t) None) = Inr (metrics (NewTestNodeStorage t))"
  by (simp add: fst_List fixture_nodeLister fixture_metrics withLiveLabels_def fixture_GetNode)

text \<open>\<^verbatim>\<open>TestNodeList\<close>, its five cases in the order of the table.\<close>

lemma TestNodeList_No_error:
  "\<exists>a b c. fst (List now h (NewTestNodeStorage t) None) = Inr [a, b, c] \<and>
     testNode a ''node1'' \<and> testNode b ''node2'' \<and> testNode c ''node3''"
  by (simp add: fixture_List_all fixture_metrics testNode_def)

lemma TestNodeList_Empty_response:
  "fst (List now h (NewTestNodeStorage t)
     (Some \<lparr>LabelSelector = None,
            FieldSelector = Some (fields_SelectorFromSet [(''metadata.name'', ''node4'')])\<rparr>)) = Inr []"
  by (simp add: fst_List fixture_nodeLister fixture_metrics selected_field_only)

lemma TestNodeList_With_FieldOptions:
  "\<exists>a. fst (List now h (NewTestNodeStorage t)
     (Some \<lparr>LabelSelector = None,
            FieldSelector = Some (fields_SelectorFromSet [(''metadata.name'', ''node2'')])\<rparr>)) = Inr [a] \<and>
     testNode a ''node2''"
  by (simp add: fst_List fixture_nodeLister fixture_metrics selected_field_only testNode_def
      fixture_GetNode)

lemma TestNodeList_With_Label_selectors:
  "\<exists>a. fst (List now h (NewTestNodeStorage t)
     (Some \<lparr>LabelSelector = Some (labels_SelectorFromSet [(''labelKey'', ''labelValue'')]),
            FieldSelector = None\<rparr>)) = Inr [a] \<and>
     testNode a ''node1''"
  by (simp add: fst_List fixture_nodeLister fixture_metrics selected_label_only testNode_def
      fixture_GetNode labels_SelectorFromSet_def)

lemma TestNodeList_With_both:
  "\<exists>a. fst (List now h (NewTestNodeStorage t)
     (Some \<lparr>LabelSelector = Some (labels_SelectorFromSet [(''labelKey'', ''otherValue'')]),
            FieldSelector = Some (fields_SelectorFromSet [(''metadata.name'', ''node3'')])\<rparr>)) = Inr [a] \<and>
     testNode a ''node3''"
  by (simp add: fst_List fixture_nodeLister fixture_metrics selected_both testNode_def
      fixture_GetNode labels_SelectorFromSet_def)

text \<open>\<^verbatim>\<open>TestNodeGet\<close>, its two cases.\<close>

lemma TestNodeGet_No_error:
  "\<exists>a. fst (Get now h (NewTestNodeStorage t) ''node1'') = Inr a \<and> testNode a ''node1''"
  by (simp add: Get_def fixture_nodeLister fixture_metrics testNode_def fixture_GetNode
      withLiveLabels_def Let_def)

lemma TestNodeGet_Empty_response:
  "fst (Get now h (NewTestNodeStorage t) ''node4'') = Inl (NotFound ''nodemetrics'' ''node4'')"
  by (simp add: Get_def fixture_nodeLister fixture_metrics)

text \<open>\<^verbatim>\<open>TestNodeList_ConvertToTable\<close>: the table of the listed fixture, and the test's
  assertion on it.\<close>

lemmas Duration_String_eval = Duration_String_def fmtFrac_def fmtInt_def digitByte_def Let_def

lemma fixture_table:
  "ConvertToTable (NodeMetricsList (metrics (NewTestNodeStorage t))) =
     Inr \<lparr>ColumnDefinitions = [''Name'', ''res1'', ''Window''],
          Rows = [[''node1'', ''10m'', ''1'' @ [CHR 0xC2, CHR 0xB5] @ ''s''],
                  [''node2'', ''0'', ''2'' @ [CHR 0xC2, CHR 0xB5] @ ''s''],
                  [''node3'', ''0'', ''3'' @ [CHR 0xC2, CHR 0xB5] @ ''s'']]\<rparr>"
  by (simp add: ConvertToTable_def fixture_metrics resourceColumns_def kinds_def quantityCell_def
      Duration_String_eval)

lemma TestNodeList_ConvertToTable_passes:
  "TestNodeList_ConvertToTable_assert
     (projr (ConvertToTable (NodeMetricsList (projr (fst (List now h (NewTestNodeStorage t) None))))))"
  by (simp add: fixture_List_all fixture_table TestNodeList_ConvertToTable_assert_def elemAt_def)

text \<open>A table whose columns were Name, the union of the resource kinds of the three
  entries, and Window would not pass that assertion: its third column is a resource.\<close>

lemma unionKinds_fixture_length:
  "length (unionKinds (metrics (NewTestNodeStorage t))) = 3"
  by (simp add: unionKinds_def fixture_metrics)

lemma unionKinds_fixture_set:
  "set (unionKinds (metrics (NewTestNodeStorage t))) = {''res1'', ''res2'', ''res3''}"
  by (simp add: unionKinds_def fixture_metrics)

lemma TestNodeList_ConvertToTable_rejects_union:
  assumes "ColumnDefinitions res =
             [''Name''] @ unionKinds (metrics (NewTestNodeStorage t)) @ [''Window'']"
  shows "\<not> TestNodeList_ConvertToTable_assert res"
proof
  let ?uk = "unionKinds (metrics (NewTestNodeStorage t))"
  assume "TestNodeList_ConvertToTable_assert res"
  then have "elemAt (ColumnDefinitions res) 2 = Some ''Window''"
    by (simp add: TestNodeList_ConvertToTable_assert_def)
  then have "ColumnDefinitions res ! 2 = ''Window''"
    by (simp add: elemAt_def split: if_splits)
  moreover have "ColumnDefinitions res ! 2 = ?uk ! 1"
    using assms unionKinds_fixture_length[of t] by (simp add: nth_append)
  moreover have "?uk ! 1 \<in> set ?uk"
    using unionKinds_fixture_length[of t] by (intro nth_mem) simp
  ultimately have "''Window'' \<in> {''res1'', ''res2'', ''res3''}"
    using unionKinds_fixture_set[of t] by simp
  then show False by simp
qed

text \<open>\<^verbatim>\<open>TestNodeList_Monitoring\<close>: the histogram is reset, the storage is built at the
  zero time, the clock advances by ten seconds, and everything is listed.\<close>

lemma sorted_metricFreshness_buckets: "sorted metricFreshness_buckets"
  by (simp add: metricFreshness_buckets_def)

lemma TestNodeList_Monitoring_passes:
  "exposition (snd (List 10000000000 (Reset metricFreshness_buckets) (NewTestNodeStorage 0) None)) =
     TestNodeList_Monitoring_expected"
  by (simp add: snd_List fixture_nodeLister fixture_metrics age_def Seconds_def Observe_def
      Reset_def metricFreshness_buckets_def exposition_def bucketLines_def
      TestNodeList_Monitoring_expected_def Let_def upt_rec)

end
